theory Spec2Isabelle
  imports Complex_Main
begin

section \<open>Numbers, exceptions and the math module\<close>

text \<open>
  The service in \<^verbatim>\<open>main.py\<close> computes with Python floats. This development reads every
  float as an exact real number and every function of the \<^verbatim>\<open>math\<close> module as the
  mathematical function it approximates, so each statement below is a statement about the
  algorithm in exact arithmetic: rounding is not modelled. What is modelled of the
  \<^verbatim>\<open>math\<close> module beyond the values are its domain errors: \<^verbatim>\<open>math.sqrt\<close> raises
  \<^verbatim>\<open>ValueError\<close> on a negative argument and \<^verbatim>\<open>math.asin\<close> outside \<open>[-1, 1]\<close>.
\<close>

datatype exn = ValueError string | IndexError string

fun exn_str :: "exn \<Rightarrow> string" where
  "exn_str (ValueError msg) = msg"
| "exn_str (IndexError msg) = msg"

datatype http_error = HTTPException nat string

definition exn_bind :: "exn + 'a \<Rightarrow> ('a \<Rightarrow> exn + 'b) \<Rightarrow> exn + 'b" where
  "exn_bind m f = (case m of Inl e \<Rightarrow> Inl e | Inr v \<Rightarrow> f v)"

definition radians :: "real \<Rightarrow> real" where
  "radians x = x * pi / 180"

definition degrees :: "real \<Rightarrow> real" where
  "degrees x = x * 180 / pi"

text \<open>
  \<^verbatim>\<open>math.atan2(y, x)\<close>: the angle of the point \<open>(x, y)\<close> in \<open>(-\<pi>, \<pi>]\<close>, and 0 at the
  origin. The reals have one zero: the sign that a float zero carries is not modelled.
\<close>

definition atan2 :: "real \<Rightarrow> real \<Rightarrow> real" where
  "atan2 y x =
     (if 0 < x then arctan (y / x)
      else if x < 0 then (if 0 \<le> y then arctan (y / x) + pi else arctan (y / x) - pi)
      else if 0 < y then pi / 2
      else if y < 0 then - (pi / 2)
      else 0)"

definition math_sqrt :: "real \<Rightarrow> exn + real" where
  "math_sqrt x = (if x < 0 then Inl (ValueError ''math domain error'') else Inr (sqrt x))"

definition math_asin :: "real \<Rightarrow> exn + real" where
  "math_asin x =
     (if x < - 1 \<or> 1 < x then Inl (ValueError ''math domain error'') else Inr (arcsin x))"

section \<open>The parsed GPX document\<close>

text \<open>
  What \<^verbatim>\<open>gpxpy.parse\<close> returns, as far as \<^verbatim>\<open>anonymize_gpx\<close> reads or writes it: tracks
  of segments of points, each point with a latitude, a longitude and an optional elevation.
  Parsing and serialising belong to the \<^verbatim>\<open>gpxpy\<close> library: the model of \<^verbatim>\<open>anonymize_gpx\<close>
  starts from the parsed document and ends with the document that is serialised.
\<close>

record gpx_point =
  latitude :: real
  longitude :: real
  elevation :: "real option"

record gpx_segment =
  points :: "gpx_point list"

record gpx_track =
  segments :: "gpx_segment list"

record gpx =
  tracks :: "gpx_track list"

section \<open>calculate\_distance\<close>

text \<open>The value \<open>a\<close> of the Haversine formula, from coordinates in degrees.\<close>

definition haversine_a :: "real \<Rightarrow> real \<Rightarrow> real \<Rightarrow> real \<Rightarrow> real" where
  "haversine_a lat1 lon1 lat2 lon2 =
     (let lat1r = radians lat1; lon1r = radians lon1;
          lat2r = radians lat2; lon2r = radians lon2;
          dlat = lat2r - lat1r;
          dlon = lon2r - lon1r
      in (sin (dlat / 2))\<^sup>2 + cos lat1r * cos lat2r * (sin (dlon / 2))\<^sup>2)"

text \<open>The line \<^verbatim>\<open>c = 2 * math.asin(math.sqrt(a))\<close>: \<open>a\<close> reaches the square root as it is.\<close>

definition haversine_c :: "real \<Rightarrow> exn + real" where
  "haversine_c a =
     exn_bind (math_sqrt a) (\<lambda>s. exn_bind (math_asin s) (\<lambda>t. Inr (2 * t)))"

definition calculate_distance :: "real \<Rightarrow> real \<Rightarrow> real \<Rightarrow> real \<Rightarrow> exn + real" where
  "calculate_distance lat1 lon1 lat2 lon2 =
     exn_bind (haversine_c (haversine_a lat1 lon1 lat2 lon2)) (\<lambda>c. Inr (6371 * c))"

section \<open>anonymize\_gpx\<close>

text \<open>The bearing of a leg, as the first loop computes it from two points.\<close>

definition leg_bearing :: "real \<Rightarrow> real \<Rightarrow> real \<Rightarrow> real \<Rightarrow> real" where
  "leg_bearing p1_latitude p1_longitude p2_latitude p2_longitude =
     (let lat1 = radians p1_latitude; lon1 = radians p1_longitude;
          lat2 = radians p2_latitude; lon2 = radians p2_longitude;
          dlon = lon2 - lon1;
          y = sin dlon * cos lat2;
          x = cos lat1 * sin lat2 - sin lat1 * cos lat2 * cos dlon
      in atan2 y x)"

text \<open>A loop whose body may raise: the first exception ends it.\<close>

fun traverse :: "('a \<Rightarrow> exn + 'b) \<Rightarrow> 'a list \<Rightarrow> exn + 'b list" where
  "traverse f [] = Inr []"
| "traverse f (x # xs) =
     (case f x of Inl e \<Rightarrow> Inl e
      | Inr v \<Rightarrow> (case traverse f xs of Inl e \<Rightarrow> Inl e | Inr vs \<Rightarrow> Inr (v # vs)))"

fun foldM :: "('a \<Rightarrow> 's \<Rightarrow> exn + 's) \<Rightarrow> 'a list \<Rightarrow> 's \<Rightarrow> exn + 's" where
  "foldM f [] s = Inr s"
| "foldM f (x # xs) s = (case f x s of Inl e \<Rightarrow> Inl e | Inr s' \<Rightarrow> foldM f xs s')"

text \<open>\<^verbatim>\<open>p.elevation if p.elevation else 0\<close>: an absent and a zero elevation are both falsy.\<close>

definition elevation_or_zero :: "gpx_point \<Rightarrow> real" where
  "elevation_or_zero p =
     (case elevation p of None \<Rightarrow> 0 | Some e \<Rightarrow> (if e \<noteq> 0 then e else 0))"

text \<open>The body of the first loop at index \<open>i\<close>: distance in kilometres and bearing.\<close>

definition measure_leg :: "gpx_point list \<Rightarrow> nat \<Rightarrow> exn + (real \<times> real)" where
  "measure_leg pts i =
     (if i + 1 < length pts then
        (let p1 = pts ! i; p2 = pts ! (i + 1) in
         exn_bind (calculate_distance (latitude p1) (longitude p1) (latitude p2) (longitude p2))
           (\<lambda>dist. Inr (dist,
              leg_bearing (latitude p1) (longitude p1) (latitude p2) (longitude p2))))
      else Inl (IndexError ''list index out of range''))"

definition measure_legs :: "gpx_point list \<Rightarrow> exn + (real \<times> real) list" where
  "measure_legs pts = traverse (measure_leg pts) [0..<length pts - 1]"

text \<open>
  The new position of the second loop: from the previous point (in degrees), a distance in
  kilometres and a bearing, to the next point (in degrees).
\<close>

definition destination :: "real \<Rightarrow> real \<Rightarrow> real \<Rightarrow> real \<Rightarrow> exn + (real \<times> real)" where
  "destination p_latitude p_longitude dist_km bearing =
     (let dist = dist_km * 1000;
          prev_lat = radians p_latitude;
          prev_lon = radians p_longitude;
          angular_dist = dist / 6371000
      in exn_bind
           (math_asin (sin prev_lat * cos angular_dist
                       + cos prev_lat * sin angular_dist * cos bearing))
           (\<lambda>new_lat.
              let new_lon = prev_lon
                    + atan2 (sin bearing * sin angular_dist * cos prev_lat)
                            (cos angular_dist - sin prev_lat * sin new_lat)
              in Inr (degrees new_lat, degrees new_lon)))"

text \<open>The body of the second loop at index \<open>i\<close>: it reads point \<open>i\<close> and rewrites point \<open>i + 1\<close>.\<close>

definition reconstruct_step ::
  "real list \<Rightarrow> real list \<Rightarrow> (real \<times> real \<times> real) list \<Rightarrow> nat
     \<Rightarrow> gpx_point list \<Rightarrow> exn + gpx_point list" where
  "reconstruct_step segment_distances segment_bearings original_points i pts =
     (if i < length segment_distances \<and> i < length segment_bearings \<and> i + 1 < length pts
         \<and> i + 1 < length original_points then
        exn_bind
          (destination (latitude (pts ! i)) (longitude (pts ! i))
             (segment_distances ! i) (segment_bearings ! i))
          (\<lambda>(new_latitude, new_longitude).
             Inr (pts[i + 1 := (pts ! (i + 1))
                    \<lparr>latitude := new_latitude, longitude := new_longitude,
                     elevation := Some (snd (snd (original_points ! (i + 1))))\<rparr>]))
      else Inl (IndexError ''list index out of range''))"

definition reconstruct ::
  "real list \<Rightarrow> real list \<Rightarrow> (real \<times> real \<times> real) list
     \<Rightarrow> gpx_point list \<Rightarrow> exn + gpx_point list" where
  "reconstruct segment_distances segment_bearings original_points pts =
     foldM (reconstruct_step segment_distances segment_bearings original_points)
       [0..<length segment_distances] pts"

text \<open>The third loop: the distances of the rewritten legs, in metres.\<close>

definition verify_leg :: "gpx_point list \<Rightarrow> nat \<Rightarrow> exn + real" where
  "verify_leg pts i =
     (if i + 1 < length pts then
        (let p1 = pts ! i; p2 = pts ! (i + 1) in
         exn_bind (calculate_distance (latitude p1) (longitude p1) (latitude p2) (longitude p2))
           (\<lambda>dist. Inr (dist * 1000)))
      else Inl (IndexError ''list index out of range''))"

definition verify_legs :: "gpx_point list \<Rightarrow> exn + real list" where
  "verify_legs pts = traverse (verify_leg pts) [0..<length pts - 1]"

text \<open>
  The body of the \<^verbatim>\<open>try\<close> block. The document is rewritten in place, so the result keeps
  every track and segment of the input and differs in the points of the first segment of
  the first track only. The result is the document that \<^verbatim>\<open>to_xml\<close> then serialises, with
  the two totals in kilometres; the log messages do not reach the result and are left out.
\<close>

definition anonymize_gpx_try :: "gpx \<Rightarrow> exn + (gpx \<times> real \<times> real)" where
  "anonymize_gpx_try g =
     (if tracks g = [] then Inl (ValueError ''No tracks found in GPX file'')
      else let track = tracks g ! 0 in
        if segments track = [] then Inl (ValueError ''No segments found in track'')
        else let segment = segments track ! 0 in
          if points segment = [] then Inl (ValueError ''No points found in segment'')
          else
            let pts = points segment;
                original_points =
                  map (\<lambda>p. (latitude p, longitude p, elevation_or_zero p)) pts
            in exn_bind (measure_legs pts) (\<lambda>legs.
                 let segment_distances = map fst legs;
                     segment_bearings = map snd legs;
                     original_distance = sum_list segment_distances;
                     pts0 = pts[0 := (pts ! 0)\<lparr>latitude := 0, longitude := 0\<rparr>]
                 in exn_bind
                      (reconstruct segment_distances segment_bearings original_points pts0)
                      (\<lambda>pts'.
                         exn_bind (verify_legs pts') (\<lambda>anonymized_distances.
                           let anonymized_distance =
                                 sum_list (map (\<lambda>d. d / 1000) anonymized_distances)
                           in Inr (g\<lparr>tracks := (tracks g)
                                     [0 := track\<lparr>segments := (segments track)
                                        [0 := segment\<lparr>points := pts'\<rparr>]\<rparr>]\<rparr>,
                                   original_distance, anonymized_distance)))))"

text \<open>The \<^verbatim>\<open>except\<close> clause: every exception of the body becomes an HTTP error 400.\<close>

definition anonymize_gpx :: "gpx \<Rightarrow> http_error + (gpx \<times> real \<times> real)" where
  "anonymize_gpx g =
     (case anonymize_gpx_try g of
        Inl e \<Rightarrow> Inl (HTTPException 400 (''Error processing GPX file: '' @ exn_str e))
      | Inr r \<Rightarrow> Inr r)"

section \<open>Closed forms\<close>

text \<open>
  The quantities that the proofs below work with: the cosine of the central angle between
  two points, the value that \<open>calculate_distance\<close> returns, and the latitude and the
  longitude shift (both in radians) that \<open>destination\<close> computes.
\<close>

definition central_cos :: "real \<Rightarrow> real \<Rightarrow> real \<Rightarrow> real" where
  "central_cos f1 f2 dl = sin f1 * sin f2 + cos f1 * cos f2 * cos dl"

definition distance_km :: "real \<Rightarrow> real \<Rightarrow> real \<Rightarrow> real \<Rightarrow> real" where
  "distance_km lat1 lon1 lat2 lon2 = 6371 * (2 * arcsin (sqrt (haversine_a lat1 lon1 lat2 lon2)))"

definition dest_lat :: "real \<Rightarrow> real \<Rightarrow> real \<Rightarrow> real" where
  "dest_lat f d b = arcsin (sin f * cos d + cos f * sin d * cos b)"

definition dest_dlon :: "real \<Rightarrow> real \<Rightarrow> real \<Rightarrow> real" where
  "dest_dlon f d b =
     atan2 (sin b * sin d * cos f) (cos d - sin f * sin (dest_lat f d b))"

text \<open>
  The body of each loop in closed form, for a document that passes the three structural checks.
\<close>

text \<open>The distances and bearings that the first loop collects.\<close>

definition legs_of :: "gpx_point list \<Rightarrow> (real \<times> real) list" where
  "legs_of pts =
     map (\<lambda>i. (distance_km (latitude (pts ! i)) (longitude (pts ! i))
                  (latitude (pts ! (i + 1))) (longitude (pts ! (i + 1))),
                leg_bearing (latitude (pts ! i)) (longitude (pts ! i))
                  (latitude (pts ! (i + 1))) (longitude (pts ! (i + 1)))))
       [0..<length pts - 1]"

text \<open>The second loop without its error branches: one step, and \<open>k\<close> steps.\<close>

definition walk_step ::
  "real list \<Rightarrow> real list \<Rightarrow> (real \<times> real \<times> real) list \<Rightarrow> nat
     \<Rightarrow> gpx_point list \<Rightarrow> gpx_point list" where
  "walk_step ds bs orig i pts =
     pts[i + 1 := (pts ! (i + 1))
       \<lparr>latitude := degrees (dest_lat (radians (latitude (pts ! i)))
                       (ds ! i * 1000 / 6371000) (bs ! i)),
        longitude := degrees (radians (longitude (pts ! i))
                       + dest_dlon (radians (latitude (pts ! i)))
                           (ds ! i * 1000 / 6371000) (bs ! i)),
        elevation := Some (snd (snd (orig ! (i + 1))))\<rparr>]"

definition walk ::
  "real list \<Rightarrow> real list \<Rightarrow> (real \<times> real \<times> real) list \<Rightarrow> nat
     \<Rightarrow> gpx_point list \<Rightarrow> gpx_point list" where
  "walk ds bs orig k pts = fold (walk_step ds bs orig) [0..<k] pts"

text \<open>The points of the first segment after the second loop.\<close>

definition anonymized_points :: "gpx_point list \<Rightarrow> gpx_point list" where
  "anonymized_points pts =
     walk (map fst (legs_of pts)) (map snd (legs_of pts))
       (map (\<lambda>p. (latitude p, longitude p, elevation_or_zero p)) pts)
       (length pts - 1)
       (pts[0 := (pts ! 0)\<lparr>latitude := 0, longitude := 0\<rparr>])"

text \<open>The points of the first segment of the first track, read and replaced.\<close>

definition first_points :: "gpx \<Rightarrow> gpx_point list" where
  "first_points g = points (segments (tracks g ! 0) ! 0)"

definition well_formed :: "gpx \<Rightarrow> bool" where
  "well_formed g \<longleftrightarrow>
     tracks g \<noteq> [] \<and> segments (tracks g ! 0) \<noteq> [] \<and> points (segments (tracks g ! 0) ! 0) \<noteq> []"

definition put_first_points :: "gpx \<Rightarrow> gpx_point list \<Rightarrow> gpx" where
  "put_first_points g pts =
     g\<lparr>tracks := (tracks g)
        [0 := (tracks g ! 0)\<lparr>segments := (segments (tracks g ! 0))
           [0 := (segments (tracks g ! 0) ! 0)\<lparr>points := pts\<rparr>]\<rparr>]\<rparr>"

text \<open>The sum of the leg distances of a point list, in kilometres.\<close>

definition total_km :: "gpx_point list \<Rightarrow> real" where
  "total_km pts =
     sum_list (map (\<lambda>i. distance_km (latitude (pts ! i)) (longitude (pts ! i))
                  (latitude (pts ! (i + 1))) (longitude (pts ! (i + 1))))
       [0..<length pts - 1])"

section \<open>The failures of the structural checks, and example documents\<close>






definition single_point_track :: gpx where
  "single_point_track =
     \<lparr>tracks = [\<lparr>segments = [\<lparr>points =
        [\<lparr>latitude = 48.8566, longitude = 2.3522, elevation = Some 35\<rparr>]\<rparr>]\<rparr>]\<rparr>"



section \<open>Trigonometry\<close>


lemma sphere_identity:
  fixes S1 C1 S2 C2 k m :: real
  assumes "S1\<^sup>2 + C1\<^sup>2 = 1" "S2\<^sup>2 + C2\<^sup>2 = 1" "m\<^sup>2 + k\<^sup>2 = 1"
  shows "(S1 * S2 + C1 * C2 * k)\<^sup>2 + (C1 * S2 - S1 * C2 * k)\<^sup>2 + (m * C2)\<^sup>2 = 1"
proof -
  have "(S1 * S2 + C1 * C2 * k)\<^sup>2 + (C1 * S2 - S1 * C2 * k)\<^sup>2 + (m * C2)\<^sup>2
        = (S1\<^sup>2 + C1\<^sup>2) * (S2\<^sup>2 + C2\<^sup>2 * k\<^sup>2) + m\<^sup>2 * C2\<^sup>2"
    by (simp add: power2_eq_square algebra_simps)
  also have "\<dots> = S2\<^sup>2 + C2\<^sup>2 * (m\<^sup>2 + k\<^sup>2)"
    using assms(1) by (simp add: algebra_simps)
  also have "\<dots> = 1" using assms(2,3) by simp
  finally show ?thesis .
qed

lemma cos_neg_upper: "pi / 2 < t \<Longrightarrow> t \<le> pi \<Longrightarrow> cos t < 0"
proof -
  assume a: "pi / 2 < t" "t \<le> pi"
  have "0 < cos (t - pi)" using a by (intro cos_gt_zero_pi) auto
  then show ?thesis by (simp add: cos_diff)
qed

lemma cos_neg_lower: "- pi < t \<Longrightarrow> t < - (pi / 2) \<Longrightarrow> cos t < 0"
proof -
  assume a: "- pi < t" "t < - (pi / 2)"
  have "0 < cos (t + pi)" using a by (intro cos_gt_zero_pi) auto
  then show ?thesis by (simp add: cos_add)
qed

lemma sin_neg_lower: "- pi < t \<Longrightarrow> t < 0 \<Longrightarrow> sin t < 0"
proof -
  assume a: "- pi < t" "t < 0"
  have "0 < sin (- t)" using a by (intro sin_gt_zero) auto
  then show ?thesis by simp
qed

lemma atan2_polar:
  assumes "0 < r" "- pi < t" "t \<le> pi"
  shows "atan2 (r * sin t) (r * cos t) = t"
proof -
  have q: "(r * sin t) / (r * cos t) = tan t"
    using assms(1) by (simp add: tan_def)
  consider "- (pi / 2) < t" "t < pi / 2" | "pi / 2 < t" | "t < - (pi / 2)"
    | "t = pi / 2" | "t = - (pi / 2)"
    by linarith
  then show ?thesis
  proof cases
    case 1
    then have "0 < cos t" by (rule cos_gt_zero_pi)
    then have "0 < r * cos t" using assms(1) by simp
    then show ?thesis using 1 q by (simp add: atan2_def arctan_tan)
  next
    case 2
    then have c: "cos t < 0" using assms(3) by (rule cos_neg_upper)
    have s: "0 \<le> sin t" using 2 assms(3) pi_gt_zero by (intro sin_ge_zero) linarith+
    have "tan t = tan (t - pi)" using tan_periodic_pi [of "t - pi"] by simp
    moreover have "arctan (tan (t - pi)) = t - pi"
      using 2 assms(3) by (intro arctan_tan) linarith+
    ultimately have "arctan (tan t) = t - pi" by simp
    moreover have "r * cos t < 0" using c assms(1) by (simp add: mult_pos_neg)
    moreover have "0 \<le> r * sin t" using s assms(1) by simp
    ultimately show ?thesis using q by (simp add: atan2_def)
  next
    case 3
    then have c: "cos t < 0" using assms(2) cos_neg_lower by blast
    have s: "sin t < 0" using 3 assms(2) pi_gt_zero by (intro sin_neg_lower) linarith+
    have "arctan (tan (t + pi)) = t + pi"
      using 3 assms(2) by (intro arctan_tan) linarith+
    then have "arctan (tan t) = t + pi" by simp
    moreover have "r * cos t < 0" using c assms(1) by (simp add: mult_pos_neg)
    moreover have "r * sin t < 0" using s assms(1) by (simp add: mult_pos_neg)
    ultimately show ?thesis using q by (simp add: atan2_def)
  next
    case 4
    have "atan2 (r * sin (pi / 2)) (r * cos (pi / 2)) = pi / 2"
      using assms(1) by (simp add: atan2_def)
    then show ?thesis unfolding 4 .
  next
    case 5
    have "atan2 (r * sin (- (pi / 2))) (r * cos (- (pi / 2))) = - (pi / 2)"
      using assms(1) by (simp add: atan2_def)
    then show ?thesis unfolding 5 .
  qed
qed

lemma atan2_zero_zero: "atan2 0 0 = 0"
  by (simp add: atan2_def)

lemma atan2_range: "- pi < atan2 y x \<and> atan2 y x \<le> pi"
proof -
  have a: "- (pi / 2) < arctan (y / x)" "arctan (y / x) < pi / 2"
    by (rule arctan_lbound, rule arctan_ubound)
  have b: "x < 0 \<Longrightarrow> 0 \<le> y \<Longrightarrow> arctan (y / x) \<le> 0"
    by (simp add: divide_nonneg_neg)
  have c: "x < 0 \<Longrightarrow> y < 0 \<Longrightarrow> 0 < arctan (y / x)"
    by (simp add: divide_neg_neg)
  show ?thesis
    using a b c pi_gt_zero by (auto simp: atan2_def)
qed

lemma polar_atan2:
  fixes x y :: real
  assumes "x \<noteq> 0 \<or> y \<noteq> 0"
  shows "sqrt (x\<^sup>2 + y\<^sup>2) * cos (atan2 y x) = x \<and> sqrt (x\<^sup>2 + y\<^sup>2) * sin (atan2 y x) = y"
proof -
  define r where "r = sqrt (x\<^sup>2 + y\<^sup>2)"
  have "0 < x\<^sup>2 + y\<^sup>2" using assms by (simp add: sum_power2_gt_zero_iff)
  then have rpos: "0 < r" unfolding r_def by simp
  have r2: "r\<^sup>2 = x\<^sup>2 + y\<^sup>2" unfolding r_def by simp
  have "(x / r)\<^sup>2 + (y / r)\<^sup>2 = (x\<^sup>2 + y\<^sup>2) / r\<^sup>2"
    by (simp add: power_divide add_divide_distrib)
  also have "\<dots> = r\<^sup>2 / r\<^sup>2" by (simp only: r2)
  also have "\<dots> = 1" using rpos by simp
  finally have "(x / r)\<^sup>2 + (y / r)\<^sup>2 = 1" .
  then obtain u where u: "x / r = cos u" "y / r = sin u"
    using sincos_total_2pi by metis
  obtain t where t: "- pi < t" "t \<le> pi" "sin t = sin u" "cos t = cos u"
    using sincos_principal_value [of u] by blast
  have x: "x = r * cos t" and y: "y = r * sin t"
    using u t rpos by (simp_all add: field_simps)
  have "atan2 (r * sin t) (r * cos t) = t" using rpos t(1,2) by (rule atan2_polar)
  then have at: "atan2 y x = t" by (simp only: x [symmetric] y [symmetric])
  have "r * cos t = x" "r * sin t = y" by (rule x [symmetric], rule y [symmetric])
  then show ?thesis by (simp only: at r_def [symmetric])
qed

lemma cos_atan2: "sqrt (x\<^sup>2 + y\<^sup>2) * cos (atan2 y x) = x"
  using polar_atan2 [of x y] by (cases "x = 0 \<and> y = 0") auto

lemma sin_atan2: "sqrt (x\<^sup>2 + y\<^sup>2) * sin (atan2 y x) = y"
  using polar_atan2 [of x y] by (cases "x = 0 \<and> y = 0") auto

lemma hav_half: "(sin (u / 2))\<^sup>2 = (1 - cos u) / (2::real)"
  using cos_double_sin [of "u / 2"] by simp


lemma radians_degrees: "radians (degrees x) = x"
  by (simp add: radians_def degrees_def)

lemma degrees_radians: "degrees (radians x) = x"
  by (simp add: radians_def degrees_def)


lemma central_cos_bounds: "- 1 \<le> central_cos f1 f2 dl \<and> central_cos f1 f2 dl \<le> 1"
proof -
  have "(sin f1 * sin f2 + cos f1 * cos f2 * cos dl)\<^sup>2
        + (cos f1 * sin f2 - sin f1 * cos f2 * cos dl)\<^sup>2 + (sin dl * cos f2)\<^sup>2 = 1"
    by (rule sphere_identity) simp_all
  then have "(central_cos f1 f2 dl)\<^sup>2 \<le> 1"
    unfolding central_cos_def
    using zero_le_power2 [of "cos f1 * sin f2 - sin f1 * cos f2 * cos dl"]
          zero_le_power2 [of "sin dl * cos f2"]
    by linarith
  then have "\<bar>central_cos f1 f2 dl\<bar> \<le> 1"
    by (simp add: abs_square_le_1)
  then show ?thesis by linarith
qed

lemma haversine_a_central:
  "haversine_a lat1 lon1 lat2 lon2
   = (1 - central_cos (radians lat1) (radians lat2) (radians lon2 - radians lon1)) / 2"
proof -
  have "cos (radians lat2 - radians lat1)
        = cos (radians lat1) * cos (radians lat2) + sin (radians lat1) * sin (radians lat2)"
    by (simp add: cos_diff)
  then show ?thesis
    by (simp add: haversine_a_def Let_def hav_half central_cos_def algebra_simps
        add_divide_distrib diff_divide_distrib)
qed

lemma haversine_a_bounds:
  "0 \<le> haversine_a lat1 lon1 lat2 lon2 \<and> haversine_a lat1 lon1 lat2 lon2 \<le> 1"
  using central_cos_bounds [of "radians lat1" "radians lat2" "radians lon2 - radians lon1"]
  by (simp add: haversine_a_central)

lemma haversine_c_value: "0 \<le> a \<Longrightarrow> a \<le> 1 \<Longrightarrow> haversine_c a = Inr (2 * arcsin (sqrt a))"
proof -
  assume a: "0 \<le> a" "a \<le> 1"
  have "0 \<le> sqrt a" "sqrt a \<le> 1" using a by simp_all
  then have "\<not> (sqrt a < - 1 \<or> 1 < sqrt a)" by linarith
  then show ?thesis using a(1)
    by (simp add: haversine_c_def math_sqrt_def math_asin_def exn_bind_def)
qed


lemma calculate_distance_value:
  "calculate_distance lat1 lon1 lat2 lon2 = Inr (distance_km lat1 lon1 lat2 lon2)"
  using haversine_a_bounds [of lat1 lon1 lat2 lon2]
  by (simp add: calculate_distance_def haversine_c_value exn_bind_def distance_km_def)

lemma destination_sine_bounds:
  fixes f d b :: real
  shows "- 1 \<le> sin f * cos d + cos f * sin d * cos b \<and> sin f * cos d + cos f * sin d * cos b \<le> 1"
  using central_cos_bounds [of f "pi / 2 - d" b]
  by (simp add: central_cos_def sin_diff cos_diff)




lemma destination_value:
  "destination plat plon dist_km b =
     Inr (degrees (dest_lat (radians plat) (dist_km * 1000 / 6371000) b),
          degrees (radians plon + dest_dlon (radians plat) (dist_km * 1000 / 6371000) b))"
proof -
  let ?s = "sin (radians plat) * cos (dist_km * 1000 / 6371000)
            + cos (radians plat) * sin (dist_km * 1000 / 6371000) * cos b"
  have "\<not> (?s < - 1 \<or> 1 < ?s)"
    using destination_sine_bounds [of "radians plat" "dist_km * 1000 / 6371000" b] by linarith
  then have "math_asin ?s = Inr (arcsin ?s)" by (simp only: math_asin_def if_False)
  then show ?thesis
    by (simp add: destination_def Let_def exn_bind_def dest_lat_def dest_dlon_def)
qed

lemma sin_dest_lat: "sin (dest_lat f d b) = sin f * cos d + cos f * sin d * cos b"
  using destination_sine_bounds [of f d b] by (simp add: dest_lat_def)

lemma cos_dest_lat_nonneg: "0 \<le> cos (dest_lat f d b)"
  unfolding dest_lat_def using destination_sine_bounds [of f d b]
  by (intro cos_ge_zero arcsin_lbound arcsin_ubound) simp_all

lemma dest_lat_range: "- (pi / 2) \<le> dest_lat f d b \<and> dest_lat f d b \<le> pi / 2"
proof -
  let ?s = "sin f * cos d + cos f * sin d * cos b"
  have "- 1 \<le> ?s" "?s \<le> 1" using destination_sine_bounds [of f d b] by simp_all
  then have "- (pi / 2) \<le> arcsin ?s" "arcsin ?s \<le> pi / 2"
    by (rule arcsin_lbound, rule arcsin_ubound)
  then show ?thesis unfolding dest_lat_def by (rule conjI)
qed

lemma dest_radius:
  assumes "0 \<le> cos f"
  shows "sqrt ((cos d - sin f * sin (dest_lat f d b))\<^sup>2 + (sin b * sin d * cos f)\<^sup>2)
         = cos f * cos (dest_lat f d b)"
proof -
  let ?s = "sin f * cos d + cos f * sin d * cos b"
  have id: "?s\<^sup>2 + (cos f * cos d - sin f * sin d * cos b)\<^sup>2 + (sin b * sin d)\<^sup>2 = 1"
    by (rule sphere_identity) simp_all
  have x: "cos d - sin f * ?s = cos f * (cos f * cos d - sin f * sin d * cos b)"
  proof -
    have "cos d - sin f * ?s = cos d * (1 - (sin f)\<^sup>2) - sin f * cos f * sin d * cos b"
      by (simp add: power2_eq_square algebra_simps)
    also have "1 - (sin f)\<^sup>2 = (cos f)\<^sup>2" by (simp add: cos_squared_eq)
    finally show ?thesis by (simp add: power2_eq_square algebra_simps)
  qed
  have "(cos d - sin f * ?s)\<^sup>2 + (sin b * sin d * cos f)\<^sup>2
        = (cos f)\<^sup>2 * ((cos f * cos d - sin f * sin d * cos b)\<^sup>2 + (sin b * sin d)\<^sup>2)"
    unfolding x by (simp add: power2_eq_square algebra_simps)
  also have "\<dots> = (cos f)\<^sup>2 * (1 - ?s\<^sup>2)" using id by simp
  also have "\<dots> = (cos f)\<^sup>2 * (cos (dest_lat f d b))\<^sup>2"
    by (simp add: cos_squared_eq sin_dest_lat)
  also have "\<dots> = (cos f * cos (dest_lat f d b))\<^sup>2" by (simp add: power_mult_distrib)
  finally have "(cos d - sin f * sin (dest_lat f d b))\<^sup>2 + (sin b * sin d * cos f)\<^sup>2
        = (cos f * cos (dest_lat f d b))\<^sup>2" by (simp only: sin_dest_lat)
  moreover have "0 \<le> cos f * cos (dest_lat f d b)"
    using assms cos_dest_lat_nonneg by simp
  ultimately show ?thesis by (simp only: real_sqrt_abs abs_of_nonneg)
qed

lemma dest_cos_dlon:
  assumes "0 \<le> cos f"
  shows "cos f * cos (dest_lat f d b) * cos (dest_dlon f d b)
         = cos d - sin f * sin (dest_lat f d b)"
  using cos_atan2 [of "cos d - sin f * sin (dest_lat f d b)" "sin b * sin d * cos f"]
  by (simp only: dest_radius [OF assms] dest_dlon_def)

lemma dest_sin_dlon:
  assumes "0 \<le> cos f"
  shows "cos f * cos (dest_lat f d b) * sin (dest_dlon f d b) = sin b * sin d * cos f"
  using sin_atan2 [of "cos d - sin f * sin (dest_lat f d b)" "sin b * sin d * cos f"]
  by (simp only: dest_radius [OF assms] dest_dlon_def)

lemma dest_central_cos:
  assumes "0 \<le> cos f"
  shows "central_cos f (dest_lat f d b) (dest_dlon f d b) = cos d"
  using dest_cos_dlon [OF assms, of d b] by (simp add: central_cos_def)


lemma distance_km_destination:
  assumes c: "0 \<le> cos (radians plat)" and d0: "0 \<le> dist_km" and d1: "dist_km \<le> 6371 * pi"
  shows "distance_km plat plon
           (degrees (dest_lat (radians plat) (dist_km * 1000 / 6371000) b))
           (degrees (radians plon + dest_dlon (radians plat) (dist_km * 1000 / 6371000) b))
         = dist_km"
proof -
  define d where "d = dist_km * 1000 / 6371000"
  have dr: "0 \<le> d / 2" "d / 2 \<le> pi / 2" using d0 d1 by (simp_all add: d_def)
  have "haversine_a plat plon (degrees (dest_lat (radians plat) d b))
          (degrees (radians plon + dest_dlon (radians plat) d b))
        = (1 - cos d) / 2"
    by (simp add: haversine_a_central radians_degrees dest_central_cos [OF c])
  also have "\<dots> = (sin (d / 2))\<^sup>2" by (simp add: hav_half)
  finally have a: "haversine_a plat plon (degrees (dest_lat (radians plat) d b))
          (degrees (radians plon + dest_dlon (radians plat) d b)) = (sin (d / 2))\<^sup>2" .
  have "0 \<le> sin (d / 2)" using dr pi_gt_zero by (intro sin_ge_zero) linarith+
  then have "sqrt ((sin (d / 2))\<^sup>2) = sin (d / 2)" by simp
  moreover have "arcsin (sin (d / 2)) = d / 2" using dr by (intro arcsin_sin) linarith+
  ultimately have "distance_km plat plon (degrees (dest_lat (radians plat) d b))
          (degrees (radians plon + dest_dlon (radians plat) d b)) = 6371 * d"
    by (simp add: distance_km_def a)
  also have "\<dots> = dist_km" by (simp add: d_def)
  finally show ?thesis by (simp only: d_def)
qed

lemma leg_bearing_destination:
  assumes c: "0 < cos (radians plat)"
  shows "leg_bearing plat plon
           (degrees (dest_lat (radians plat) d b))
           (degrees (radians plon + dest_dlon (radians plat) d b))
         = atan2 (sin d * sin b) (sin d * cos b)"
proof -
  define f where "f = radians plat"
  define f2 where "f2 = dest_lat f d b"
  define dl where "dl = dest_dlon f d b"
  have c0: "0 \<le> cos f" and cpos: "0 < cos f" using c by (simp_all add: f_def)
  have cd: "cos f * (cos f2 * cos dl) = cos d - sin f * sin f2"
    using dest_cos_dlon [OF c0, of d b] by (simp add: f2_def dl_def mult.assoc)
  have sd: "cos f * (cos f2 * sin dl) = cos f * (sin b * sin d)"
    using dest_sin_dlon [OF c0, of d b] by (simp add: f2_def dl_def mult_ac)
  have y: "sin dl * cos f2 = sin d * sin b"
    using sd cpos by (simp add: mult_ac)
  have s2: "sin f2 = sin f * cos d + cos f * sin d * cos b"
    by (simp add: f2_def sin_dest_lat)
  have "cos f * (cos f * sin f2 - sin f * cos f2 * cos dl)
        = (cos f)\<^sup>2 * sin f2 - sin f * (cos f * (cos f2 * cos dl))"
    by (simp add: power2_eq_square algebra_simps)
  also have "\<dots> = (cos f)\<^sup>2 * sin f2 - sin f * (cos d - sin f * sin f2)"
    by (simp only: cd)
  also have "\<dots> = (1 - (sin f)\<^sup>2) * sin f2 - sin f * (cos d - sin f * sin f2)"
    by (simp only: cos_squared_eq)
  also have "\<dots> = sin f2 - sin f * cos d"
    by (simp add: power2_eq_square algebra_simps)
  also have "\<dots> = cos f * (sin d * cos b)" by (simp add: s2)
  finally have x: "cos f * sin f2 - sin f * cos f2 * cos dl = sin d * cos b"
    using cpos by simp
  have "leg_bearing plat plon (degrees f2) (degrees (radians plon + dl))
        = atan2 (sin dl * cos f2) (cos f * sin f2 - sin f * cos f2 * cos dl)"
    by (simp add: leg_bearing_def Let_def radians_degrees f_def)
  also have "\<dots> = atan2 (sin d * sin b) (sin d * cos b)" by (simp only: x y)
  finally show ?thesis unfolding f2_def dl_def f_def .
qed

section \<open>The distance function and its domain\<close>




section \<open>The new position inverts distance and bearing\<close>




text \<open>
  Why the latitude of the start point is strictly inside: in exact arithmetic the pole is
  singular. The cosine of its latitude is 0, the longitude shift is \<open>atan2 0 0 = 0\<close>
  whatever the bearing, and the bearing read back is due south.
\<close>

lemma pole_is_singular:
  "destination 90 0 (6371 * pi / 2) (pi / 2) = Inr (0, 0) \<and> leg_bearing 90 0 0 0 = pi"
  by (simp add: destination_def leg_bearing_def math_asin_def exn_bind_def radians_def
      degrees_def atan2_def)

section \<open>No loop raises\<close>

lemma traverse_total:
  "(\<And>x. x \<in> set xs \<Longrightarrow> f x = Inr (g x)) \<Longrightarrow> traverse f xs = Inr (map g xs)"
  by (induction xs) simp_all

lemma foldM_snoc: "foldM f (xs @ [x]) s = exn_bind (foldM f xs s) (f x)"
  by (induction xs arbitrary: s) (simp_all add: exn_bind_def split: sum.splits)

lemma measure_legs_value: "measure_legs pts = Inr (legs_of pts)"
  unfolding measure_legs_def legs_of_def
  by (rule traverse_total)
     (auto simp: measure_leg_def Let_def calculate_distance_value exn_bind_def)

lemma verify_legs_value:
  "verify_legs pts =
     Inr (map (\<lambda>i. distance_km (latitude (pts ! i)) (longitude (pts ! i))
                  (latitude (pts ! (i + 1))) (longitude (pts ! (i + 1))) * 1000)
            [0..<length pts - 1])"
  unfolding verify_legs_def
  by (rule traverse_total)
     (auto simp: verify_leg_def Let_def calculate_distance_value exn_bind_def)

lemma walk_0: "walk ds bs orig 0 pts = pts"
  by (simp add: walk_def)

lemma walk_Suc: "walk ds bs orig (Suc k) pts = walk_step ds bs orig k (walk ds bs orig k pts)"
  by (simp add: walk_def)

lemma walk_step_length: "length (walk_step ds bs orig i pts) = length pts"
  by (simp add: walk_step_def)

lemma walk_length: "length (walk ds bs orig k pts) = length pts"
  by (induction k) (simp_all add: walk_0 walk_Suc walk_step_length)

lemma reconstruct_step_value:
  assumes "i < length ds" "i < length bs" "i + 1 < length pts" "i + 1 < length orig"
  shows "reconstruct_step ds bs orig i pts = Inr (walk_step ds bs orig i pts)"
  using assms
  by (simp add: reconstruct_step_def destination_value exn_bind_def walk_step_def)

lemma foldM_reconstruct:
  assumes "k \<le> length ds" "k \<le> length bs" "k < length pts" "k < length orig"
  shows "foldM (reconstruct_step ds bs orig) [0..<k] pts = Inr (walk ds bs orig k pts)"
  using assms
proof (induction k)
  case 0
  show ?case by (simp add: walk_0)
next
  case (Suc k)
  have "foldM (reconstruct_step ds bs orig) [0..<k] pts = Inr (walk ds bs orig k pts)"
    using Suc by simp
  moreover have "reconstruct_step ds bs orig k (walk ds bs orig k pts)
                 = Inr (walk_step ds bs orig k (walk ds bs orig k pts))"
    using Suc.prems by (intro reconstruct_step_value) (simp_all add: walk_length)
  ultimately show ?case
    by (simp add: foldM_snoc exn_bind_def walk_Suc)
qed

lemma walk_nth_above:
  "k < j \<Longrightarrow> walk ds bs orig k pts ! j = pts ! j"
  by (induction k) (simp_all add: walk_0 walk_Suc walk_step_def)

lemma walk_nth_stable:
  "j \<le> k \<Longrightarrow> walk ds bs orig (k + m) pts ! j = walk ds bs orig k pts ! j"
  by (induction m) (simp_all add: walk_Suc walk_step_def)

lemma walk_nth_Suc:
  assumes "k + 1 < length pts"
  shows "walk ds bs orig (Suc k) pts ! (k + 1) =
     (pts ! (k + 1))
       \<lparr>latitude := degrees (dest_lat (radians (latitude (walk ds bs orig k pts ! k)))
                       (ds ! k * 1000 / 6371000) (bs ! k)),
        longitude := degrees (radians (longitude (walk ds bs orig k pts ! k))
                       + dest_dlon (radians (latitude (walk ds bs orig k pts ! k)))
                           (ds ! k * 1000 / 6371000) (bs ! k)),
        elevation := Some (snd (snd (orig ! (k + 1))))\<rparr>"
  using assms by (simp add: walk_Suc walk_step_def walk_length walk_nth_above)


lemma anonymized_points_0:
  assumes "pts \<noteq> []"
  shows "anonymized_points pts ! 0 = (pts ! 0)\<lparr>latitude := 0, longitude := 0\<rparr>"
proof -
  have "walk ds bs orig (0 + m) ps ! 0 = walk ds bs orig 0 ps ! 0" for ds bs orig m ps
    by (rule walk_nth_stable) simp
  then show ?thesis using assms by (simp add: anonymized_points_def walk_0)
qed

lemma legs_of_nth:
  assumes "i + 1 < length pts"
  shows "legs_of pts ! i =
     (distance_km (latitude (pts ! i)) (longitude (pts ! i))
        (latitude (pts ! (i + 1))) (longitude (pts ! (i + 1))),
      leg_bearing (latitude (pts ! i)) (longitude (pts ! i))
        (latitude (pts ! (i + 1))) (longitude (pts ! (i + 1))))"
proof -
  have "i < length pts - 1" using assms by simp
  then show ?thesis by (simp add: legs_of_def)
qed

lemma legs_of_length: "length (legs_of pts) = length pts - 1"
  by (simp add: legs_of_def)

lemma anonymized_points_Suc:
  assumes "i + 1 < length pts"
  shows "anonymized_points pts ! (i + 1) =
     (pts ! (i + 1))
       \<lparr>latitude := degrees (dest_lat (radians (latitude (anonymized_points pts ! i)))
           (distance_km (latitude (pts ! i)) (longitude (pts ! i))
              (latitude (pts ! (i + 1))) (longitude (pts ! (i + 1))) * 1000 / 6371000)
           (leg_bearing (latitude (pts ! i)) (longitude (pts ! i))
              (latitude (pts ! (i + 1))) (longitude (pts ! (i + 1))))),
        longitude := degrees (radians (longitude (anonymized_points pts ! i))
           + dest_dlon (radians (latitude (anonymized_points pts ! i)))
               (distance_km (latitude (pts ! i)) (longitude (pts ! i))
                  (latitude (pts ! (i + 1))) (longitude (pts ! (i + 1))) * 1000 / 6371000)
               (leg_bearing (latitude (pts ! i)) (longitude (pts ! i))
                  (latitude (pts ! (i + 1))) (longitude (pts ! (i + 1))))),
        elevation := Some (elevation_or_zero (pts ! (i + 1)))\<rparr>"
proof -
  define ds where "ds = map fst (legs_of pts)"
  define bs where "bs = map snd (legs_of pts)"
  define orig where "orig = map (\<lambda>p. (latitude p, longitude p, elevation_or_zero p)) pts"
  define pts0 where "pts0 = pts[0 := (pts ! 0)\<lparr>latitude := 0, longitude := 0\<rparr>]"
  obtain m where m: "length pts - 1 = Suc i + m"
    using assms by (metis Suc_eq_plus1 less_diff_conv less_imp_Suc_add add_Suc)
  have A: "anonymized_points pts = walk ds bs orig (Suc i + m) pts0"
    unfolding anonymized_points_def ds_def bs_def orig_def pts0_def by (simp only: m)
  have l0: "i + 1 < length pts0" using assms by (simp add: pts0_def)
  have prev: "anonymized_points pts ! i = walk ds bs orig i pts0 ! i"
  proof -
    have "walk ds bs orig (i + Suc m) pts0 ! i = walk ds bs orig i pts0 ! i"
      by (rule walk_nth_stable) simp
    then show ?thesis by (simp add: A)
  qed
  have "anonymized_points pts ! (i + 1) = walk ds bs orig (Suc i) pts0 ! (i + 1)"
    unfolding A by (rule walk_nth_stable) simp
  also have "\<dots> = (pts0 ! (i + 1))
       \<lparr>latitude := degrees (dest_lat (radians (latitude (walk ds bs orig i pts0 ! i)))
                       (ds ! i * 1000 / 6371000) (bs ! i)),
        longitude := degrees (radians (longitude (walk ds bs orig i pts0 ! i))
                       + dest_dlon (radians (latitude (walk ds bs orig i pts0 ! i)))
                           (ds ! i * 1000 / 6371000) (bs ! i)),
        elevation := Some (snd (snd (orig ! (i + 1))))\<rparr>"
    using l0 by (rule walk_nth_Suc)
  finally show ?thesis
    using assms
    by (simp add: prev ds_def bs_def orig_def pts0_def legs_of_nth legs_of_length)
qed

lemma first_points_put:
  "well_formed g \<Longrightarrow> first_points (put_first_points g pts) = pts"
  by (simp add: well_formed_def first_points_def put_first_points_def)

lemma anonymize_gpx_value:
  assumes "well_formed g"
  shows "anonymize_gpx g =
     Inr (put_first_points g (anonymized_points (first_points g)),
          total_km (first_points g), total_km (anonymized_points (first_points g)))"
proof -
  define pts where "pts = first_points g"
  define ds where "ds = map fst (legs_of pts)"
  define bs where "bs = map snd (legs_of pts)"
  define orig where "orig = map (\<lambda>p. (latitude p, longitude p, elevation_or_zero p)) pts"
  define pts0 where "pts0 = pts[0 := (pts ! 0)\<lparr>latitude := 0, longitude := 0\<rparr>]"
  have ne: "pts \<noteq> []" using assms by (simp add: pts_def first_points_def well_formed_def)
  have rec: "reconstruct ds bs orig pts0 = Inr (anonymized_points pts)"
  proof -
    have "foldM (reconstruct_step ds bs orig) [0..<length pts - 1] pts0
          = Inr (walk ds bs orig (length pts - 1) pts0)"
      using ne by (intro foldM_reconstruct)
        (simp_all add: ds_def bs_def orig_def pts0_def legs_of_length)
    then show ?thesis
      by (simp add: reconstruct_def anonymized_points_def ds_def bs_def orig_def pts0_def
          legs_of_length)
  qed
  have tot1: "sum_list ds = total_km pts"
    by (simp add: ds_def legs_of_def total_km_def comp_def)
  have tot2: "sum_list (map (\<lambda>d. d / 1000)
        (map (\<lambda>i. distance_km (latitude (anonymized_points pts ! i))
                (longitude (anonymized_points pts ! i))
                (latitude (anonymized_points pts ! (i + 1)))
                (longitude (anonymized_points pts ! (i + 1))) * 1000)
           [0..<length (anonymized_points pts) - 1]))
      = total_km (anonymized_points pts)"
    by (simp add: total_km_def comp_def)
  have "anonymize_gpx_try g =
     Inr (put_first_points g (anonymized_points pts), total_km pts,
          total_km (anonymized_points pts))"
    using assms rec tot1 tot2
    by (simp add: anonymize_gpx_try_def well_formed_def Let_def measure_legs_value
        exn_bind_def verify_legs_value put_first_points_def
        pts_def [symmetric] first_points_def [symmetric]
        ds_def [symmetric] bs_def [symmetric] orig_def [symmetric] pts0_def [symmetric])
  then show ?thesis by (simp add: anonymize_gpx_def pts_def)
qed

section \<open>Structural validation\<close>



section \<open>The first point\<close>



text \<open>
  Claim C7. For a first segment of exactly one point, \<open>anonymize_gpx\<close> succeeds, the
  segment of the result is that one point moved to latitude 0 and longitude 0, and the
  original and the anonymized total distance are both 0.
\<close>

theorem one_point_result:
  assumes "tracks g \<noteq> []" "segments (tracks g ! 0) \<noteq> []"
    and "points (segments (tracks g ! 0) ! 0) = [p]"
  shows "\<exists>g'. anonymize_gpx g = Inr (g', 0, 0)
           \<and> first_points g' = [p\<lparr>latitude := 0, longitude := 0\<rparr>]"
proof -
  have wf: "well_formed g" using assms by (simp add: well_formed_def)
  have fp: "first_points g = [p]" using assms(3) by (simp add: first_points_def)
  have a: "anonymized_points [p] = [p\<lparr>latitude := 0, longitude := 0\<rparr>]"
    by (simp add: anonymized_points_def walk_0)
  show ?thesis
    using wf by (simp add: anonymize_gpx_value fp a first_points_put total_km_def)
qed

text \<open>The theorem at the document of one point.\<close>

theorem one_point_result_witness:
  "\<exists>g'. anonymize_gpx single_point_track = Inr (g', 0, 0)
         \<and> first_points g' = [\<lparr>latitude = 0, longitude = 0, elevation = Some 35\<rparr>]"
  using one_point_result [of single_point_track
      "\<lparr>latitude = 48.8566, longitude = 2.3522, elevation = Some 35\<rparr>"]
  by (simp add: single_point_track_def)

section \<open>Elevations\<close>





section \<open>What is left untouched\<close>



section \<open>Longitudes are not normalised\<close>








section \<open>Legs in exact arithmetic\<close>

text \<open>
  What the reconstruction preserves when every operation is exact. The latitude of every
  reconstructed point lies between \<open>-90\<close> and \<open>90\<close> degrees, and every original leg
  is at most half the circumference long.
\<close>

lemma anonymized_latitude_range:
  assumes "i < length pts"
  shows "- (pi / 2) \<le> radians (latitude (anonymized_points pts ! i))
         \<and> radians (latitude (anonymized_points pts ! i)) \<le> pi / 2"
proof (cases i)
  case 0
  have "pts \<noteq> []" using assms by auto
  then show ?thesis using pi_ge_zero by (simp add: 0 anonymized_points_0 radians_def)
next
  case (Suc j)
  then have j: "j + 1 < length pts" and i: "i = j + 1" using assms by simp_all
  show ?thesis
    unfolding i anonymized_points_Suc [OF j]
    using dest_lat_range by (simp add: radians_degrees)
qed

lemma anonymized_latitude_cos:
  assumes "i < length pts"
  shows "0 \<le> cos (radians (latitude (anonymized_points pts ! i)))"
  using anonymized_latitude_range [OF assms] by (intro cos_ge_zero) simp_all

lemma distance_km_range:
  "0 \<le> distance_km lat1 lon1 lat2 lon2 \<and> distance_km lat1 lon1 lat2 lon2 \<le> 6371 * pi"
proof -
  let ?a = "haversine_a lat1 lon1 lat2 lon2"
  have a: "0 \<le> ?a" "?a \<le> 1" using haversine_a_bounds [of lat1 lon1 lat2 lon2] by simp_all
  have s: "0 \<le> sqrt ?a" "sqrt ?a \<le> 1" using a by simp_all
  have m: "- 1 \<le> sqrt ?a" using s(1) by linarith
  have "arcsin 0 \<le> arcsin (sqrt ?a)" using s by (intro arcsin_le_arcsin) simp_all
  then have "0 \<le> arcsin (sqrt ?a)" by simp
  moreover have "arcsin (sqrt ?a) \<le> pi / 2" using m s(2) by (rule arcsin_ubound)
  ultimately show ?thesis by (simp add: distance_km_def)
qed

lemma anonymized_latitude_Suc:
  assumes "i + 1 < length pts"
  shows "latitude (anonymized_points pts ! (i + 1))
         = degrees (dest_lat (radians (latitude (anonymized_points pts ! i)))
             (distance_km (latitude (pts ! i)) (longitude (pts ! i))
                (latitude (pts ! (i + 1))) (longitude (pts ! (i + 1))) * 1000 / 6371000)
             (leg_bearing (latitude (pts ! i)) (longitude (pts ! i))
                (latitude (pts ! (i + 1))) (longitude (pts ! (i + 1)))))"
  unfolding anonymized_points_Suc [OF assms] by simp

lemma anonymized_longitude_Suc:
  assumes "i + 1 < length pts"
  shows "longitude (anonymized_points pts ! (i + 1))
         = degrees (radians (longitude (anonymized_points pts ! i))
             + dest_dlon (radians (latitude (anonymized_points pts ! i)))
                 (distance_km (latitude (pts ! i)) (longitude (pts ! i))
                    (latitude (pts ! (i + 1))) (longitude (pts ! (i + 1))) * 1000 / 6371000)
                 (leg_bearing (latitude (pts ! i)) (longitude (pts ! i))
                    (latitude (pts ! (i + 1))) (longitude (pts ! (i + 1)))))"
  unfolding anonymized_points_Suc [OF assms] by simp

text \<open>
  The distance of every reconstructed leg is the distance of the original leg. This is an
  equality of real numbers: it says nothing about the size of the rounding error of the
  floating-point computation, which is what the tolerance of one metre is about.
\<close>

lemma leg_distance_preserved:
  assumes "i + 1 < length pts"
  shows "distance_km (latitude (anonymized_points pts ! i))
           (longitude (anonymized_points pts ! i))
           (latitude (anonymized_points pts ! (i + 1)))
           (longitude (anonymized_points pts ! (i + 1)))
         = distance_km (latitude (pts ! i)) (longitude (pts ! i))
             (latitude (pts ! (i + 1))) (longitude (pts ! (i + 1)))"
proof -
  have i: "i < length pts" using assms by simp
  show ?thesis
    unfolding anonymized_latitude_Suc [OF assms] anonymized_longitude_Suc [OF assms]
    using anonymized_latitude_cos [OF i] distance_km_range [THEN conjunct1]
      distance_km_range [THEN conjunct2]
    by (rule distance_km_destination)
qed

text \<open>
  The sine of the angular length of a leg is the length of the vector whose angle is the
  bearing of the leg; so a leg of length 0 or of half the circumference has bearing 0.
\<close>

lemma bearing_radius:
  "sin (distance_km lat1 lon1 lat2 lon2 * 1000 / 6371000)
   = sqrt ((cos (radians lat1) * sin (radians lat2)
            - sin (radians lat1) * cos (radians lat2) * cos (radians lon2 - radians lon1))\<^sup>2
         + (sin (radians lon2 - radians lon1) * cos (radians lat2))\<^sup>2)"
proof -
  let ?a = "haversine_a lat1 lon1 lat2 lon2"
  let ?c = "central_cos (radians lat1) (radians lat2) (radians lon2 - radians lon1)"
  have a: "0 \<le> ?a" "?a \<le> 1" using haversine_a_bounds [of lat1 lon1 lat2 lon2] by simp_all
  have s: "0 \<le> sqrt ?a" "sqrt ?a \<le> 1" using a by simp_all
  have m: "- 1 \<le> sqrt ?a" using s(1) by linarith
  have ac: "?a = (1 - ?c) / 2" by (rule haversine_a_central)
  have id: "?c\<^sup>2 + (cos (radians lat1) * sin (radians lat2)
            - sin (radians lat1) * cos (radians lat2) * cos (radians lon2 - radians lon1))\<^sup>2
         + (sin (radians lon2 - radians lon1) * cos (radians lat2))\<^sup>2 = 1"
    unfolding central_cos_def by (rule sphere_identity) simp_all
  have "distance_km lat1 lon1 lat2 lon2 * 1000 / 6371000 = 2 * arcsin (sqrt ?a)"
    by (simp add: distance_km_def)
  then have "sin (distance_km lat1 lon1 lat2 lon2 * 1000 / 6371000)
        = 2 * sin (arcsin (sqrt ?a)) * cos (arcsin (sqrt ?a))"
    by (simp only: sin_double)
  also have "\<dots> = 2 * sqrt ?a * sqrt (1 - (sqrt ?a)\<^sup>2)"
    using m s(2) by (simp only: cos_arcsin sin_arcsin)
  also have "\<dots> = sqrt (4 * ?a * (1 - ?a))"
    using a by (simp add: real_sqrt_mult)
  also have "4 * ?a * (1 - ?a) = 1 - ?c\<^sup>2"
  proof -
    have "4 * ((1 - c) / 2) * (1 - (1 - c) / 2) = 1 - c\<^sup>2" for c :: real
      by (simp add: power2_eq_square field_simps)
    then show ?thesis unfolding ac .
  qed
  also have "1 - ?c\<^sup>2 = (cos (radians lat1) * sin (radians lat2)
            - sin (radians lat1) * cos (radians lat2) * cos (radians lon2 - radians lon1))\<^sup>2
         + (sin (radians lon2 - radians lon1) * cos (radians lat2))\<^sup>2"
    using id by simp
  finally show ?thesis .
qed

text \<open>
  The bearing of a reconstructed leg is the bearing of the original leg, when the
  reconstructed leg does not start at a pole. At a pole the cosine of the latitude is
  exactly 0 in exact arithmetic, and a small positive float in the rounded computation.
\<close>

lemma leg_bearing_preserved:
  assumes "i + 1 < length pts"
    and "cos (radians (latitude (anonymized_points pts ! i))) \<noteq> 0"
  shows "leg_bearing (latitude (anonymized_points pts ! i))
           (longitude (anonymized_points pts ! i))
           (latitude (anonymized_points pts ! (i + 1)))
           (longitude (anonymized_points pts ! (i + 1)))
         = leg_bearing (latitude (pts ! i)) (longitude (pts ! i))
             (latitude (pts ! (i + 1))) (longitude (pts ! (i + 1)))"
proof -
  define lat1 where "lat1 = latitude (pts ! i)"
  define lon1 where "lon1 = longitude (pts ! i)"
  define lat2 where "lat2 = latitude (pts ! (i + 1))"
  define lon2 where "lon2 = longitude (pts ! (i + 1))"
  define x where "x = cos (radians lat1) * sin (radians lat2)
            - sin (radians lat1) * cos (radians lat2) * cos (radians lon2 - radians lon1)"
  define y where "y = sin (radians lon2 - radians lon1) * cos (radians lat2)"
  have i: "i < length pts" using assms(1) by simp
  have c: "0 < cos (radians (latitude (anonymized_points pts ! i)))"
    using anonymized_latitude_cos [OF i] assms(2) by simp
  have b: "leg_bearing lat1 lon1 lat2 lon2 = atan2 y x"
    by (simp add: leg_bearing_def Let_def x_def y_def)
  have r: "sin (distance_km lat1 lon1 lat2 lon2 * 1000 / 6371000) = sqrt (x\<^sup>2 + y\<^sup>2)"
    unfolding x_def y_def by (rule bearing_radius)
  have "leg_bearing (latitude (anonymized_points pts ! i))
           (longitude (anonymized_points pts ! i))
           (latitude (anonymized_points pts ! (i + 1)))
           (longitude (anonymized_points pts ! (i + 1)))
        = atan2 (sin (distance_km lat1 lon1 lat2 lon2 * 1000 / 6371000)
                   * sin (leg_bearing lat1 lon1 lat2 lon2))
                (sin (distance_km lat1 lon1 lat2 lon2 * 1000 / 6371000)
                   * cos (leg_bearing lat1 lon1 lat2 lon2))"
    unfolding anonymized_latitude_Suc [OF assms(1)] anonymized_longitude_Suc [OF assms(1)]
      lat1_def lon1_def lat2_def lon2_def
    using c by (rule leg_bearing_destination)
  also have "\<dots> = atan2 y x"
    unfolding r b by (simp only: sin_atan2 cos_atan2)
  finally show ?thesis
    by (simp only: b [symmetric] lat1_def lon1_def lat2_def lon2_def)
qed

text \<open>
  A leg between two points of equal coordinates: distance 0 and bearing 0, without error,
  and in exact arithmetic the next reconstructed point has the coordinates of the previous
  one (the inverse sine gives back the angle whose sine it is given).
\<close>

lemma distance_km_same: "distance_km lat lon lat lon = 0"
  by (simp add: distance_km_def haversine_a_def)

lemma leg_bearing_same: "leg_bearing lat lon lat lon = 0"
proof -
  have "cos (radians lat) * sin (radians lat) - sin (radians lat) * cos (radians lat) * cos 0 = 0"
    by simp
  then show ?thesis
    by (simp add: leg_bearing_def Let_def atan2_zero_zero)
qed

lemma destination_zero:
  assumes "- (pi / 2) \<le> f" "f \<le> pi / 2"
  shows "dest_lat f (0 * 1000 / 6371000) 0 = f" and "dest_dlon f (0 * 1000 / 6371000) 0 = 0"
proof -
  show l: "dest_lat f (0 * 1000 / 6371000) 0 = f"
    using assms by (simp add: dest_lat_def arcsin_sin)
  have "0 \<le> 1 - sin f * sin f"
    using sin_squared_eq [of f] zero_le_power2 [of "cos f"] cos_squared_eq [of f]
    by (simp add: power2_eq_square)
  then have "atan2 0 (1 - sin f * sin f) = 0"
    by (simp add: atan2_def)
  then show "dest_dlon f (0 * 1000 / 6371000) 0 = 0"
    unfolding dest_dlon_def l by simp
qed

lemma identical_leg:
  assumes i: "i + 1 < length pts"
    and lat: "latitude (pts ! (i + 1)) = latitude (pts ! i)"
    and lon: "longitude (pts ! (i + 1)) = longitude (pts ! i)"
  shows "calculate_distance (latitude (pts ! i)) (longitude (pts ! i))
           (latitude (pts ! (i + 1))) (longitude (pts ! (i + 1))) = Inr 0"
    and "leg_bearing (latitude (pts ! i)) (longitude (pts ! i))
           (latitude (pts ! (i + 1))) (longitude (pts ! (i + 1))) = 0"
    and "latitude (anonymized_points pts ! (i + 1)) = latitude (anonymized_points pts ! i)"
    and "longitude (anonymized_points pts ! (i + 1)) = longitude (anonymized_points pts ! i)"
proof -
  have j: "i < length pts" using i by simp
  note r = anonymized_latitude_range [OF j]
  note z = destination_zero [OF r [THEN conjunct1] r [THEN conjunct2]]
  show "calculate_distance (latitude (pts ! i)) (longitude (pts ! i))
           (latitude (pts ! (i + 1))) (longitude (pts ! (i + 1))) = Inr 0"
    unfolding lat lon by (simp only: calculate_distance_value distance_km_same)
  show "leg_bearing (latitude (pts ! i)) (longitude (pts ! i))
           (latitude (pts ! (i + 1))) (longitude (pts ! (i + 1))) = 0"
    unfolding lat lon by (rule leg_bearing_same)
  show "latitude (anonymized_points pts ! (i + 1)) = latitude (anonymized_points pts ! i)"
    unfolding anonymized_latitude_Suc [OF i] lat lon distance_km_same leg_bearing_same z
    by (rule degrees_radians)
  show "longitude (anonymized_points pts ! (i + 1)) = longitude (anonymized_points pts ! i)"
    unfolding anonymized_longitude_Suc [OF i] lat lon distance_km_same leg_bearing_same z
    by (simp add: degrees_radians)
qed

end
